theory Spec2Isabelle
  imports Main "HOL-Library.Sublist"
begin

section \<open>The host environment\<close>

text \<open>
  \<^verbatim>\<open>temp_dir.py\<close> is ten lines of control flow around four calls into the Python
  standard library: \<^verbatim>\<open>os.getcwd\<close>, \<^verbatim>\<open>tempfile.mkdtemp\<close>, \<^verbatim>\<open>os.chdir\<close> and
  \<^verbatim>\<open>shutil.rmtree\<close>. None of the four is code of the repository, so the embedding takes
  them as parameters: a \<open>host\<close> is a record of the four calls, each a function from the
  state of the world (process and filesystem, of any type \<open>'w\<close>) to a result and the new
  state of the world. A call that raises returns \<open>Inl\<close> of the exception (of any type
  \<open>'e\<close>); the world it returns is the world the raise leaves behind, which need not be
  the world the call started from (a failing \<^verbatim>\<open>rmtree\<close> may have deleted half a tree).
\<close>

type_synonym path = string

type_synonym ('w, 'e, 'a) action = "'w \<Rightarrow> ('e + 'a) \<times> 'w"

record ('w, 'e) host =
  os_getcwd :: "('w, 'e, path) action"
  tempfile_mkdtemp :: "('w, 'e, path) action"
  os_chdir :: "path \<Rightarrow> ('w, 'e, unit) action"
  shutil_rmtree :: "path \<Rightarrow> ('w, 'e, unit) action"

text \<open>
  What the caller can see of a world: the working directory of the process, and which
  paths exist on the filesystem. Paths stand for the directories and files they name
  (two names for one directory, through a symbolic link, are not modelled).
\<close>

record 'w view =
  cwd_of :: "'w \<Rightarrow> path"
  path_exists :: "'w \<Rightarrow> path \<Rightarrow> bool"

definition inside :: "path \<Rightarrow> path \<Rightarrow> bool" where
  "inside d p = prefix (d @ ''/'') p"

text \<open>
  What the standard library documents of the four calls, as far as the properties below
  need it. Each contract speaks of every call, failing or not.
  \<^item> \<^verbatim>\<open>os.getcwd\<close> returns the working directory and changes nothing that can be seen.
  \<^item> \<^verbatim>\<open>tempfile.mkdtemp\<close> leaves the working directory alone; the path it returns did
    not exist before the call, exists after it and has nothing inside.
  \<^item> \<^verbatim>\<open>os.chdir\<close> leaves the filesystem alone; the working directory is the requested
    one when it returns and the old one when it raises.
  \<^item> \<^verbatim>\<open>shutil.rmtree\<close> leaves the working directory alone; when it returns, neither
    the path nor anything inside it exists.
\<close>

definition getcwd_contract :: "('w, 'e) host \<Rightarrow> 'w view \<Rightarrow> bool" where
  "getcwd_contract h v =
     (\<forall>w r w'. os_getcwd h w = (r, w') \<longrightarrow>
        cwd_of v w' = cwd_of v w \<and> path_exists v w' = path_exists v w \<and>
        (\<forall>p. r = Inr p \<longrightarrow> p = cwd_of v w))"

definition mkdtemp_contract :: "('w, 'e) host \<Rightarrow> 'w view \<Rightarrow> bool" where
  "mkdtemp_contract h v =
     (\<forall>w r w'. tempfile_mkdtemp h w = (r, w') \<longrightarrow>
        cwd_of v w' = cwd_of v w \<and>
        (\<forall>p. r = Inr p \<longrightarrow>
           \<not> path_exists v w p \<and> path_exists v w' p \<and>
           (\<forall>q. inside p q \<longrightarrow> \<not> path_exists v w' q)))"

definition chdir_contract :: "('w, 'e) host \<Rightarrow> 'w view \<Rightarrow> bool" where
  "chdir_contract h v =
     (\<forall>p w r w'. os_chdir h p w = (r, w') \<longrightarrow>
        path_exists v w' = path_exists v w \<and>
        cwd_of v w' = (case r of Inl _ \<Rightarrow> cwd_of v w | Inr _ \<Rightarrow> p))"

definition rmtree_contract :: "('w, 'e) host \<Rightarrow> 'w view \<Rightarrow> bool" where
  "rmtree_contract h v =
     (\<forall>p w r w'. shutil_rmtree h p w = (r, w') \<longrightarrow>
        cwd_of v w' = cwd_of v w \<and>
        (\<forall>u q. r = Inr u \<and> (q = p \<or> inside p q) \<longrightarrow> \<not> path_exists v w' q))"

text \<open>
  A host that keeps a log: the same four calls, each appending its name and argument to
  a list carried beside the world, whether it returns or raises. A block run under the
  logging host leaves the log alone.
\<close>

datatype call = Getcwd | Mkdtemp | Chdir path | Rmtree path

definition record_call :: "call \<Rightarrow> ('w, 'e, 'a) action \<Rightarrow> ('w \<times> call list, 'e, 'a) action" where
  "record_call c f = (\<lambda>(w, log). case f w of (r, w') \<Rightarrow> (r, (w', log @ [c])))"

definition logged :: "('w, 'e) host \<Rightarrow> ('w \<times> call list, 'e) host" where
  "logged h =
     \<lparr> os_getcwd = record_call Getcwd (os_getcwd h),
       tempfile_mkdtemp = record_call Mkdtemp (tempfile_mkdtemp h),
       os_chdir = (\<lambda>p. record_call (Chdir p) (os_chdir h p)),
       shutil_rmtree = (\<lambda>p. record_call (Rmtree p) (shutil_rmtree h p)) \<rparr>"

definition unlogged ::
  "(path \<Rightarrow> ('w, 'e, 'a) action) \<Rightarrow> path \<Rightarrow> ('w \<times> call list, 'e, 'a) action" where
  "unlogged block d = (\<lambda>(w, log). case block d w of (r, w') \<Rightarrow> (r, (w', log)))"

section \<open>The program\<close>

text \<open>
  Python's \<^verbatim>\<open>try: body finally: final\<close>, for a \<open>final\<close> with no \<^verbatim>\<open>return\<close> in it:
  \<open>final\<close> runs whatever \<open>body\<close> did, on the world \<open>body\<close> left; when \<open>final\<close>
  raises, its exception replaces the outcome of \<open>body\<close>, otherwise the outcome of
  \<open>body\<close> (its value, or the exception it raised) stands.
\<close>

definition try_finally ::
  "('w, 'e, 'a) action \<Rightarrow> ('w, 'e, unit) action \<Rightarrow> ('w, 'e, 'a) action" where
  "try_finally body final w =
     (case body w of
        (outcome, w1) \<Rightarrow>
          (case final w1 of
             (Inl e, w2) \<Rightarrow> (Inl e, w2)
           | (Inr _, w2) \<Rightarrow> (outcome, w2)))"

text \<open>
  \<^verbatim>\<open>with in_temp_dir() as d: block(d)\<close>. The generator runs up to its \<^verbatim>\<open>yield\<close> when the
  \<^verbatim>\<open>with\<close> statement is entered: an exception there leaves the statement before the
  block and before the \<^verbatim>\<open>try\<close>. The block runs at the \<^verbatim>\<open>yield\<close>, inside the outer
  \<^verbatim>\<open>try\<close>: \<^verbatim>\<open>contextlib.contextmanager\<close> throws the block's exception into the generator
  at the \<^verbatim>\<open>yield\<close>, and resumes it there when the block ends normally.
\<close>

definition in_temp_dir ::
  "('w, 'e) host \<Rightarrow> (path \<Rightarrow> ('w, 'e, 'a) action) \<Rightarrow> ('w, 'e, 'a) action" where
  "in_temp_dir h block w =
     (case os_getcwd h w of
        (Inl e, w0) \<Rightarrow> (Inl e, w0)
      | (Inr original_directory, w0) \<Rightarrow>
          (case tempfile_mkdtemp h w0 of
             (Inl e, w1) \<Rightarrow> (Inl e, w1)
           | (Inr temporary_directory, w1) \<Rightarrow>
               (case os_chdir h temporary_directory w1 of
                  (Inl e, w2) \<Rightarrow> (Inl e, w2)
                | (Inr _, w2) \<Rightarrow>
                    try_finally (block temporary_directory)
                      (try_finally (os_chdir h original_directory)
                         (shutil_rmtree h temporary_directory)) w2)))"

text \<open>
  N sequential invocations, as a caller writes them:
  \<^verbatim>\<open>for block in blocks: with in_temp_dir() as d: block(d)\<close>,
  the loop ending at the first exception. The result lists, for each invocation, the
  path it yielded and the world it left behind.
\<close>

definition yielding :: "(path \<Rightarrow> ('w, 'e, 'a) action) \<Rightarrow> path \<Rightarrow> ('w, 'e, path) action" where
  "yielding block d w =
     (case block d w of (Inl e, w') \<Rightarrow> (Inl e, w') | (Inr _, w') \<Rightarrow> (Inr d, w'))"

fun in_temp_dir_seq ::
  "('w, 'e) host \<Rightarrow> (path \<Rightarrow> ('w, 'e, 'a) action) list \<Rightarrow> ('w, 'e, (path \<times> 'w) list) action" where
  "in_temp_dir_seq h [] w = (Inr [], w)"
| "in_temp_dir_seq h (block # blocks) w =
     (case in_temp_dir h (yielding block) w of
        (Inl e, w1) \<Rightarrow> (Inl e, w1)
      | (Inr d, w1) \<Rightarrow>
          (case in_temp_dir_seq h blocks w1 of
             (Inl e, w2) \<Rightarrow> (Inl e, w2)
           | (Inr rest, w2) \<Rightarrow> (Inr ((d, w1) # rest), w2)))"

text \<open>
  A Python function, as far as the decorator is concerned: the attributes
  \<^verbatim>\<open>__module__\<close>, \<^verbatim>\<open>__name__\<close> and \<^verbatim>\<open>__doc__\<close>, and what a call does. \<open>'args\<close> is
  whatever the call site passes: the positional and the keyword arguments together.
\<close>

record ('args, 'w, 'e, 'r) pyfunc =
  fn_module :: string
  fn_name :: string
  fn_doc :: "string option"
  fn_call :: "'args \<Rightarrow> ('w, 'e, 'r) action"

text \<open>
  \<^verbatim>\<open>functools.wraps(wrapped)(wrapper)\<close> of the standard library: the wrapper, with the
  attributes of \<^verbatim>\<open>functools.WRAPPER_ASSIGNMENTS\<close> copied from the wrapped function. Of
  those the record keeps three; \<^verbatim>\<open>__qualname__\<close>, \<^verbatim>\<open>__dict__\<close> and \<^verbatim>\<open>__wrapped__\<close>
  are left out of the model.
\<close>

definition functools_wraps ::
  "('args, 'w, 'e, 'r) pyfunc \<Rightarrow> ('args, 'w, 'e, 'r) pyfunc \<Rightarrow> ('args, 'w, 'e, 'r) pyfunc" where
  "functools_wraps wrapped wrapper =
     wrapper \<lparr> fn_module := fn_module wrapped, fn_name := fn_name wrapped,
               fn_doc := fn_doc wrapped \<rparr>"

text \<open>
  \<^verbatim>\<open>within_temp_dir(func)\<close>: the inner function \<^verbatim>\<open>decorated\<close>, which has no docstring
  of its own, passed through \<^verbatim>\<open>functools.wraps(func)\<close>. Its body is
  \<^verbatim>\<open>with in_temp_dir(): return func(*args, **kwargs)\<close>: the path the scope yields is
  not bound, and the value returned from inside the \<^verbatim>\<open>with\<close> is the outcome of the block.
\<close>

definition within_temp_dir ::
  "('w, 'e) host \<Rightarrow> ('args, 'w, 'e, 'r) pyfunc \<Rightarrow> ('args, 'w, 'e, 'r) pyfunc" where
  "within_temp_dir h func =
     functools_wraps func
       \<lparr> fn_module = ''temp_dir'', fn_name = ''decorated'', fn_doc = None,
         fn_call = (\<lambda>args. in_temp_dir h (\<lambda>_. fn_call func args)) \<rparr>"

section \<open>A model host\<close>

text \<open>
  One host to run the program on: a filesystem as the lists of the directories and of
  the regular files that exist, the working directory of the process, the entries that
  cannot be deleted, the directories that cannot be entered, and the names the random
  name generator of \<^verbatim>\<open>tempfile\<close> is going to produce, in order. Every error of the
  operating system is an \<^verbatim>\<open>OSError\<close>, tagged with the call that raised it.
\<close>

datatype py_exception = OSError string | ValueError string | TypeError string

record world =
  cwd :: path
  dirs :: "path list"
  files :: "path list"
  undeletable :: "path list"
  forbidden :: "path list"
  names :: "string list"

definition present :: "world \<Rightarrow> path \<Rightarrow> bool" where
  "present w p = (p \<in> set (dirs w) \<or> p \<in> set (files w))"

definition at_or_inside :: "path \<Rightarrow> path \<Rightarrow> bool" where
  "at_or_inside d p = (p = d \<or> inside d p)"

definition occupied :: "world \<Rightarrow> path \<Rightarrow> bool" where
  "occupied w d = list_ex (at_or_inside d) (dirs w @ files w)"

definition tmp_path :: "string \<Rightarrow> path" where
  "tmp_path n = ''/tmp/tmp'' @ n"

text \<open>\<^verbatim>\<open>os.getcwd\<close> raises when the working directory has been deleted.\<close>

definition posix_getcwd :: "(world, py_exception, path) action" where
  "posix_getcwd w =
     (if cwd w \<in> set (dirs w) then (Inr (cwd w), w) else (Inl (OSError ''getcwd''), w))"

text \<open>
  \<^verbatim>\<open>tempfile.mkdtemp\<close> draws names from the generator until one is free under
  \<^verbatim>\<open>/tmp\<close>, and creates that directory; it raises when \<^verbatim>\<open>/tmp\<close> is missing or the
  names run out.
\<close>

definition posix_mkdtemp :: "(world, py_exception, path) action" where
  "posix_mkdtemp w =
     (if ''/tmp'' \<notin> set (dirs w) then (Inl (OSError ''mkdtemp''), w)
      else case dropWhile (\<lambda>n. occupied w (tmp_path n)) (names w) of
             [] \<Rightarrow> (Inl (OSError ''mkdtemp''), w \<lparr> names := [] \<rparr>)
           | n # rest \<Rightarrow>
               (Inr (tmp_path n), w \<lparr> dirs := tmp_path n # dirs w, names := rest \<rparr>))"

definition posix_chdir :: "path \<Rightarrow> (world, py_exception, unit) action" where
  "posix_chdir p w =
     (if p \<in> set (dirs w) \<and> p \<notin> set (forbidden w) then (Inr (), w \<lparr> cwd := p \<rparr>)
      else (Inl (OSError ''chdir''), w))"

text \<open>
  \<^verbatim>\<open>shutil.rmtree\<close> raises at the first entry it cannot delete; the model lets it raise
  before it has deleted anything.
\<close>

definition posix_rmtree :: "path \<Rightarrow> (world, py_exception, unit) action" where
  "posix_rmtree p w =
     (if p \<in> set (dirs w) \<and> \<not> list_ex (at_or_inside p) (undeletable w)
      then (Inr (), w \<lparr> dirs := filter (\<lambda>q. \<not> at_or_inside p q) (dirs w),
                         files := filter (\<lambda>q. \<not> at_or_inside p q) (files w) \<rparr>)
      else (Inl (OSError ''rmtree''), w))"

definition posix :: "(world, py_exception) host" where
  "posix = \<lparr> os_getcwd = posix_getcwd, tempfile_mkdtemp = posix_mkdtemp,
              os_chdir = posix_chdir, shutil_rmtree = posix_rmtree \<rparr>"

definition posix_view :: "world view" where
  "posix_view = \<lparr> cwd_of = cwd, path_exists = present \<rparr>"

text \<open>
  A world to start from, and blocks to run: one writes a file, one writes a file that
  cannot be deleted, two raise \<^verbatim>\<open>ValueError\<close> after doing the same, one changes the
  working directory, one removes the directory the process came from.
\<close>

definition home :: world where
  "home = \<lparr> cwd = ''/home/u'', dirs = [''/'', ''/tmp'', ''/home/u'', ''/srv''], files = [],
            undeletable = [], forbidden = [], names = [''a'', ''b''] \<rparr>"

definition write_data :: "path \<Rightarrow> (world, py_exception, unit) action" where
  "write_data d w = (Inr (), w \<lparr> files := (d @ ''/data.txt'') # files w \<rparr>)"

definition write_locked :: "path \<Rightarrow> (world, py_exception, unit) action" where
  "write_locked d w =
     (Inr (), w \<lparr> files := (d @ ''/data.txt'') # files w,
                  undeletable := (d @ ''/data.txt'') # undeletable w \<rparr>)"

definition boom :: "path \<Rightarrow> (world, py_exception, unit) action" where
  "boom d w = (Inl (ValueError ''boom''), w \<lparr> files := (d @ ''/data.txt'') # files w \<rparr>)"

definition boom_locked :: "path \<Rightarrow> (world, py_exception, unit) action" where
  "boom_locked d w =
     (Inl (ValueError ''boom''),
      w \<lparr> files := (d @ ''/data.txt'') # files w,
          undeletable := (d @ ''/data.txt'') # undeletable w \<rparr>)"

definition wander :: "path \<Rightarrow> (world, py_exception, unit) action" where
  "wander d w = posix_chdir ''/srv'' w"

definition drop_home :: "path \<Rightarrow> (world, py_exception, unit) action" where
  "drop_home d w = (Inr (), w \<lparr> dirs := removeAll ''/home/u'' (dirs w) \<rparr>)"

text \<open>
  What a block sees when it starts: the path it was given, the working directory, whether
  the path is a directory, and whether anything lies inside it.
\<close>

definition look_around ::
  "path \<Rightarrow> (world, py_exception, path \<times> path \<times> bool \<times> bool) action" where
  "look_around d w =
     (Inr (d, cwd w, d \<in> set (dirs w), list_ex (inside d) (dirs w @ files w)), w)"

text \<open>
  \<^verbatim>\<open>def f(x, y=2): return x + y\<close>, called with the positional and the keyword
  arguments of the call site (the keywords as the list of a dictionary's items, every key
  once). Python binds the positional arguments to \<^verbatim>\<open>x\<close> and \<^verbatim>\<open>y\<close> in order and the
  keywords by name, and raises \<^verbatim>\<open>TypeError\<close> for a third positional argument, an unknown
  keyword, a parameter given twice, or a missing \<^verbatim>\<open>x\<close>.
\<close>

definition f_call :: "int list \<times> (string \<times> int) list \<Rightarrow> (world, py_exception, int) action" where
  "f_call args w =
     (case args of
        (pos, kw) \<Rightarrow>
          let x = (case pos of
                     [] \<Rightarrow> map_of kw ''x''
                   | a # _ \<Rightarrow> if map_of kw ''x'' = None then Some a else None);
              y = (case pos of
                     _ # b # _ \<Rightarrow> if map_of kw ''y'' = None then Some b else None
                   | _ \<Rightarrow> (case map_of kw ''y'' of None \<Rightarrow> Some 2 | Some b \<Rightarrow> Some b))
          in if length pos \<le> 2 \<and> list_all (\<lambda>k. k = ''x'' \<or> k = ''y'') (map fst kw)
             then (case (x, y) of
                     (Some a, Some b) \<Rightarrow> (Inr (a + b), w)
                   | _ \<Rightarrow> (Inl (TypeError ''f''), w))
             else (Inl (TypeError ''f''), w))"

definition f :: "(int list \<times> (string \<times> int) list, world, py_exception, int) pyfunc" where
  "f = \<lparr> fn_module = ''__main__'', fn_name = ''f'', fn_doc = Some ''add'', fn_call = f_call \<rparr>"

text \<open>
  The same function, but one that also leaves a file that cannot be deleted in the
  working directory, whether it returns or raises.
\<close>

definition f_locked_call ::
  "int list \<times> (string \<times> int) list \<Rightarrow> (world, py_exception, int) action" where
  "f_locked_call args w =
     (case f_call args w of
        (r, w') \<Rightarrow>
          (r, w' \<lparr> files := (cwd w' @ ''/data.txt'') # files w',
                    undeletable := (cwd w' @ ''/data.txt'') # undeletable w' \<rparr>))"

definition f_locked ::
  "(int list \<times> (string \<times> int) list, world, py_exception, int) pyfunc" where
  "f_locked = \<lparr> fn_module = ''__main__'', fn_name = ''f_locked'', fn_doc = None,
                 fn_call = f_locked_call \<rparr>"

text \<open>
  The worlds a run from \<open>home\<close> passes through on entry: \<^verbatim>\<open>/tmp/tmpa\<close> created, then
  entered. Two more worlds to start from: one whose name generator repeats itself, and
  one where the directory about to be created cannot be entered.
\<close>

definition created :: world where
  "created = home \<lparr> dirs := ''/tmp/tmpa'' # dirs home, names := [''b''] \<rparr>"

definition entered :: world where
  "entered = created \<lparr> cwd := ''/tmp/tmpa'' \<rparr>"

definition repeating :: world where
  "repeating = home \<lparr> names := [''a'', ''a''] \<rparr>"

definition shut_out :: world where
  "shut_out = home \<lparr> forbidden := [''/tmp/tmpa''] \<rparr>"

section \<open>The exit path\<close>

lemma in_temp_dir_entered:
  assumes "os_getcwd h w = (Inr orig, w0)"
    and "tempfile_mkdtemp h w0 = (Inr tmp, w1)"
    and "os_chdir h tmp w1 = (Inr u, w2)"
  shows "in_temp_dir h block w =
           try_finally (block tmp) (try_finally (os_chdir h orig) (shutil_rmtree h tmp)) w2"
  using assms by (simp add: in_temp_dir_def)

lemma try_finally_eq:
  assumes "body w = (rb, w1)" and "final w1 = (rf, w2)"
  shows "try_finally body final w = (case rf of Inl e \<Rightarrow> Inl e | Inr _ \<Rightarrow> rb, w2)"
  using assms by (simp add: try_finally_def split: sum.splits)

lemma in_temp_dir_exit:
  assumes "os_getcwd h w = (Inr orig, w0)"
    and "tempfile_mkdtemp h w0 = (Inr tmp, w1)"
    and "os_chdir h tmp w1 = (Inr u, w2)"
    and "block tmp w2 = (rb, w3)"
    and "os_chdir h orig w3 = (rc, w4)"
    and "shutil_rmtree h tmp w4 = (rd, w5)"
  shows "in_temp_dir h block w =
           (case rd of Inl e \<Rightarrow> Inl e | Inr _ \<Rightarrow> (case rc of Inl e \<Rightarrow> Inl e | Inr _ \<Rightarrow> rb), w5)"
proof -
  have "try_finally (os_chdir h orig) (shutil_rmtree h tmp) w3 =
          (case rd of Inl e \<Rightarrow> Inl e | Inr _ \<Rightarrow> rc, w5)"
    using assms(5,6) by (rule try_finally_eq)
  with assms(4) have "try_finally (block tmp)
      (try_finally (os_chdir h orig) (shutil_rmtree h tmp)) w2 =
        (case (case rd of Inl e \<Rightarrow> Inl e | Inr _ \<Rightarrow> rc) of Inl e \<Rightarrow> Inl e | Inr _ \<Rightarrow> rb, w5)"
    by (rule try_finally_eq)
  then show ?thesis
    using in_temp_dir_entered [OF assms(1-3), of block] by (simp split: sum.splits)
qed

lemma in_temp_dir_log:
  assumes "os_getcwd h w = (Inr orig, w0)"
    and "tempfile_mkdtemp h w0 = (Inr tmp, w1)"
    and "os_chdir h tmp w1 = (Inr u, w2)"
    and "block tmp w2 = (rb, w3)"
    and "os_chdir h orig w3 = (rc, w4)"
    and "shutil_rmtree h tmp w4 = (rd, w5)"
  shows "snd (in_temp_dir (logged h) (unlogged block) (w, log)) =
           (w5, log @ [Getcwd, Mkdtemp, Chdir tmp, Chdir orig, Rmtree tmp])"
proof -
  have 1: "os_getcwd (logged h) (w, log) = (Inr orig, (w0, log @ [Getcwd]))"
    using assms(1) by (simp add: logged_def record_call_def)
  have 2: "tempfile_mkdtemp (logged h) (w0, log @ [Getcwd]) =
             (Inr tmp, (w1, log @ [Getcwd, Mkdtemp]))"
    using assms(2) by (simp add: logged_def record_call_def)
  have 3: "os_chdir (logged h) tmp (w1, log @ [Getcwd, Mkdtemp]) =
             (Inr u, (w2, log @ [Getcwd, Mkdtemp, Chdir tmp]))"
    using assms(3) by (simp add: logged_def record_call_def)
  have 4: "unlogged block tmp (w2, log @ [Getcwd, Mkdtemp, Chdir tmp]) =
             (rb, (w3, log @ [Getcwd, Mkdtemp, Chdir tmp]))"
    using assms(4) by (simp add: unlogged_def)
  have 5: "os_chdir (logged h) orig (w3, log @ [Getcwd, Mkdtemp, Chdir tmp]) =
             (rc, (w4, log @ [Getcwd, Mkdtemp, Chdir tmp, Chdir orig]))"
    using assms(5) by (simp add: logged_def record_call_def)
  have 6: "shutil_rmtree (logged h) tmp (w4, log @ [Getcwd, Mkdtemp, Chdir tmp, Chdir orig]) =
             (rd, (w5, log @ [Getcwd, Mkdtemp, Chdir tmp, Chdir orig, Rmtree tmp]))"
    using assms(6) by (simp add: logged_def record_call_def)
  show ?thesis
    by (simp add: in_temp_dir_exit [where block = "unlogged block", OF 1 2 3 4 5 6])
qed

section \<open>The contracts, one call at a time\<close>

lemma getcwd_ok:
  assumes "getcwd_contract h v" and "os_getcwd h w = (r, w')"
  shows "cwd_of v w' = cwd_of v w" and "path_exists v w' = path_exists v w"
    and "r = Inr p \<Longrightarrow> p = cwd_of v w"
  using assms unfolding getcwd_contract_def by blast+

lemma mkdtemp_ok:
  assumes "mkdtemp_contract h v" and "tempfile_mkdtemp h w = (r, w')"
  shows "cwd_of v w' = cwd_of v w"
    and "r = Inr p \<Longrightarrow> \<not> path_exists v w p"
    and "r = Inr p \<Longrightarrow> path_exists v w' p"
    and "r = Inr p \<Longrightarrow> inside p q \<Longrightarrow> \<not> path_exists v w' q"
  using assms unfolding mkdtemp_contract_def by blast+

lemma chdir_ok:
  assumes "chdir_contract h v" and "os_chdir h p w = (r, w')"
  shows "path_exists v w' = path_exists v w"
    and "r = Inr u \<Longrightarrow> cwd_of v w' = p"
    and "r = Inl e \<Longrightarrow> cwd_of v w' = cwd_of v w"
proof -
  from assms have *: "path_exists v w' = path_exists v w \<and>
      cwd_of v w' = (case r of Inl _ \<Rightarrow> cwd_of v w | Inr _ \<Rightarrow> p)"
    unfolding chdir_contract_def by blast
  show "path_exists v w' = path_exists v w" using * by simp
  show "r = Inr u \<Longrightarrow> cwd_of v w' = p" using * by simp
  show "r = Inl e \<Longrightarrow> cwd_of v w' = cwd_of v w" using * by simp
qed

lemma rmtree_ok:
  assumes "rmtree_contract h v" and "shutil_rmtree h p w = (r, w')"
  shows "cwd_of v w' = cwd_of v w"
    and "r = Inr u \<Longrightarrow> \<not> path_exists v w' p"
    and "r = Inr u \<Longrightarrow> inside p q \<Longrightarrow> \<not> path_exists v w' q"
  using assms unfolding rmtree_contract_def by blast+

section \<open>One invocation that returns\<close>

lemma in_temp_dir_returns:
  assumes "in_temp_dir h block w = (Inr x, w')"
  shows "\<exists>orig w0 tmp w1 u w2 w3 u' w4 u''.
           os_getcwd h w = (Inr orig, w0) \<and> tempfile_mkdtemp h w0 = (Inr tmp, w1) \<and>
           os_chdir h tmp w1 = (Inr u, w2) \<and> block tmp w2 = (Inr x, w3) \<and>
           os_chdir h orig w3 = (Inr u', w4) \<and> shutil_rmtree h tmp w4 = (Inr u'', w')"
  using assms unfolding in_temp_dir_def try_finally_def
  by (auto split: prod.splits sum.splits)

lemma yielding_returns:
  assumes "yielding block d w = (Inr x, w')"
  shows "x = d"
  using assms by (auto simp: yielding_def split: prod.splits sum.splits)

lemma one_invocation:
  assumes "getcwd_contract h v" and "mkdtemp_contract h v"
    and "chdir_contract h v" and "rmtree_contract h v"
    and "in_temp_dir h (yielding block) w = (Inr d, w')"
  shows "\<not> path_exists v w d" and "\<not> path_exists v w' d"
    and "inside d q \<Longrightarrow> \<not> path_exists v w' q" and "cwd_of v w' = cwd_of v w"
proof -
  from in_temp_dir_returns [OF assms(5)]
  obtain orig w0 tmp w1 u w2 w3 u' w4 u'' where
    g: "os_getcwd h w = (Inr orig, w0)" and m: "tempfile_mkdtemp h w0 = (Inr tmp, w1)" and
    c: "os_chdir h tmp w1 = (Inr u, w2)" and b: "yielding block tmp w2 = (Inr d, w3)" and
    r: "os_chdir h orig w3 = (Inr u', w4)" and x: "shutil_rmtree h tmp w4 = (Inr u'', w')"
    by blast
  have d: "d = tmp" using yielding_returns [OF b] .
  have "\<not> path_exists v w0 tmp" using mkdtemp_ok(2) [OF assms(2) m] by simp
  then show "\<not> path_exists v w d" using getcwd_ok(2) [OF assms(1) g] d by simp
  show "\<not> path_exists v w' d" using rmtree_ok(2) [OF assms(4) x] d by simp
  show "inside d q \<Longrightarrow> \<not> path_exists v w' q" using rmtree_ok(3) [OF assms(4) x] d by simp
  have "cwd_of v w' = cwd_of v w4" using rmtree_ok(1) [OF assms(4) x] .
  also have "\<dots> = orig" using chdir_ok(2) [OF assms(3) r] by simp
  also have "\<dots> = cwd_of v w" using getcwd_ok(3) [OF assms(1) g] by simp
  finally show "cwd_of v w' = cwd_of v w" .
qed

section \<open>The model host keeps the contracts\<close>

lemma inside_neq: "inside d p \<Longrightarrow> p \<noteq> d"
  by (auto simp: inside_def prefix_def)

lemma posix_getcwd_contract: "getcwd_contract posix posix_view"
  by (auto simp: getcwd_contract_def posix_def posix_view_def posix_getcwd_def split: if_splits)

lemma posix_chdir_contract: "chdir_contract posix posix_view"
  by (auto simp: chdir_contract_def posix_def posix_view_def posix_chdir_def present_def
      split: if_splits)

lemma posix_rmtree_contract: "rmtree_contract posix posix_view"
  by (auto simp: rmtree_contract_def posix_def posix_view_def posix_rmtree_def present_def
      at_or_inside_def split: if_splits)

lemma not_occupied:
  assumes "\<not> occupied w d"
  shows "\<not> present w d" and "inside d q \<Longrightarrow> \<not> present w q"
  using assms by (auto simp: occupied_def present_def list_ex_iff at_or_inside_def)

lemma posix_mkdtemp_contract: "mkdtemp_contract posix posix_view"
proof -
  have "\<not> present w p \<and> present w' p \<and> (\<forall>q. inside p q \<longrightarrow> \<not> present w' q) \<and> cwd w' = cwd w"
    if "posix_mkdtemp w = (Inr p, w')" for w p w'
  proof -
    let ?rest = "dropWhile (\<lambda>n. occupied w (tmp_path n)) (names w)"
    from that obtain n rest where r: "?rest = n # rest" and p: "p = tmp_path n"
      and w': "w' = w \<lparr> dirs := tmp_path n # dirs w, names := rest \<rparr>"
      by (auto simp: posix_mkdtemp_def split: if_splits list.splits)
    from r have "\<not> occupied w (tmp_path n)"
      using hd_dropWhile [of "\<lambda>n. occupied w (tmp_path n)" "names w"] by simp
    then show ?thesis
      using not_occupied [of w p] inside_neq [of p] by (auto simp: p w' present_def)
  qed
  moreover have "cwd w' = cwd w" if "posix_mkdtemp w = (Inl e, w')" for w e w'
    using that by (auto simp: posix_mkdtemp_def split: if_splits list.splits)
  ultimately show ?thesis
    unfolding mkdtemp_contract_def posix_def posix_view_def
    apply simp
    by (metis sum.exhaust)
qed

lemmas model_defs =
  posix_def posix_getcwd_def posix_mkdtemp_def posix_chdir_def posix_rmtree_def
  occupied_def at_or_inside_def inside_def tmp_path_def
  home_def created_def entered_def repeating_def shut_out_def

lemma home_getcwd: "os_getcwd posix home = (Inr ''/home/u'', home)"
  by (simp add: posix_def posix_getcwd_def home_def)

lemma home_mkdtemp: "tempfile_mkdtemp posix home = (Inr ''/tmp/tmpa'', created)"
  by (simp add: model_defs)

lemma created_chdir: "os_chdir posix ''/tmp/tmpa'' created = (Inr (), entered)"
  by (simp add: model_defs)

section \<open>The scope\<close>

text \<open>
  \<^bold>\<open>C1.\<close> Once the scope is entered, whatever the block did and however the two steps of
  the exit path end: the calls made are, in this order, \<^verbatim>\<open>getcwd\<close>, \<^verbatim>\<open>mkdtemp\<close>, the
  \<^verbatim>\<open>chdir\<close> into the temporary directory, the \<^verbatim>\<open>chdir\<close> back to the original directory
  and the \<^verbatim>\<open>rmtree\<close> of the temporary directory. The restore is attempted before the
  deletion, and the deletion is attempted on the world the restore left, whether the
  restore returned or raised. The caller receives the deletion's exception when it
  raised, else the restore's when it raised, else the outcome of the block. In
  particular, when the restore returns and the deletion raises, the caller receives the
  deletion's exception, and the working directory is the original one both when the
  deletion starts and when the scope has exited.
\<close>

theorem exit_restores_then_deletes:
  assumes "os_getcwd h w = (Inr orig, w0)"
    and "tempfile_mkdtemp h w0 = (Inr tmp, w1)"
    and "os_chdir h tmp w1 = (Inr u, w2)"
    and "block tmp w2 = (rb, w3)"
    and "os_chdir h orig w3 = (rc, w4)"
    and "shutil_rmtree h tmp w4 = (rd, w5)"
  shows "snd (in_temp_dir (logged h) (unlogged block) (w, [])) =
           (w5, [Getcwd, Mkdtemp, Chdir tmp, Chdir orig, Rmtree tmp]) \<and>
         in_temp_dir h block w =
           (case rd of Inl e \<Rightarrow> Inl e
            | Inr _ \<Rightarrow> (case rc of Inl e \<Rightarrow> Inl e | Inr _ \<Rightarrow> rb), w5) \<and>
         (\<forall>u' e. rc = Inr u' \<and> rd = Inl e \<longrightarrow>
            fst (in_temp_dir h block w) = Inl e \<and>
            (chdir_contract h v \<and> rmtree_contract h v \<longrightarrow>
               cwd_of v w4 = orig \<and> cwd_of v (snd (in_temp_dir h block w)) = orig))"
proof -
  note run = in_temp_dir_exit [where block = block, OF assms]
  have "snd (in_temp_dir (logged h) (unlogged block) (w, [])) =
          (w5, [Getcwd, Mkdtemp, Chdir tmp, Chdir orig, Rmtree tmp])"
    using in_temp_dir_log [where block = block and log = "[]", OF assms] by simp
  moreover have "cwd_of v w4 = orig \<and> cwd_of v w5 = orig"
    if "rc = Inr u'" and "chdir_contract h v" and "rmtree_contract h v" for u'
    using chdir_ok(2) [OF that(2) assms(5) that(1)] rmtree_ok(1) [OF that(3) assms(6)]
    by simp
  ultimately show ?thesis
    using run by auto
qed

text \<open>
  \<^bold>\<open>C1\<close> on the model host, twice: a block that leaves an undeletable file behind, so
  that the deletion raises after the restore has returned; and a block that removes the
  original directory, so that the restore raises and the deletion still runs.
\<close>

theorem exit_restores_then_deletes_witness:
  "snd (snd (in_temp_dir (logged posix) (unlogged write_locked) (home, []))) =
     [Getcwd, Mkdtemp, Chdir ''/tmp/tmpa'', Chdir ''/home/u'', Rmtree ''/tmp/tmpa''] \<and>
   fst (in_temp_dir posix write_locked home) = Inl (OSError ''rmtree'') \<and>
   cwd (snd (in_temp_dir posix write_locked home)) = ''/home/u'' \<and>
   snd (snd (in_temp_dir (logged posix) (unlogged drop_home) (home, []))) =
     [Getcwd, Mkdtemp, Chdir ''/tmp/tmpa'', Chdir ''/home/u'', Rmtree ''/tmp/tmpa''] \<and>
   fst (in_temp_dir posix drop_home home) = Inl (OSError ''chdir'') \<and>
   \<not> present (snd (in_temp_dir posix drop_home home)) ''/tmp/tmpa''"
proof -
  let ?w3 = "snd (write_locked ''/tmp/tmpa'' entered)"
  let ?w4 = "snd (os_chdir posix ''/home/u'' ?w3)"
  let ?w5 = "snd (shutil_rmtree posix ''/tmp/tmpa'' ?w4)"
  have 4: "write_locked ''/tmp/tmpa'' entered = (Inr (), ?w3)"
    by (simp add: write_locked_def)
  have 5: "os_chdir posix ''/home/u'' ?w3 = (Inr (), ?w4)"
    by (simp add: model_defs write_locked_def)
  have 6: "shutil_rmtree posix ''/tmp/tmpa'' ?w4 = (Inl (OSError ''rmtree''), ?w5)"
    by (simp add: model_defs write_locked_def)
  let ?v3 = "snd (drop_home ''/tmp/tmpa'' entered)"
  let ?v4 = "snd (os_chdir posix ''/home/u'' ?v3)"
  let ?v5 = "snd (shutil_rmtree posix ''/tmp/tmpa'' ?v4)"
  have 7: "drop_home ''/tmp/tmpa'' entered = (Inr (), ?v3)"
    by (simp add: drop_home_def)
  have 8: "os_chdir posix ''/home/u'' ?v3 = (Inl (OSError ''chdir''), ?v4)"
    by (simp add: model_defs drop_home_def)
  have 9: "shutil_rmtree posix ''/tmp/tmpa'' ?v4 = (Inr (), ?v5)"
    by (simp add: model_defs drop_home_def)
  have deletion_raises:
    "snd (snd (in_temp_dir (logged posix) (unlogged write_locked) (home, []))) =
       [Getcwd, Mkdtemp, Chdir ''/tmp/tmpa'', Chdir ''/home/u'', Rmtree ''/tmp/tmpa''] \<and>
     fst (in_temp_dir posix write_locked home) = Inl (OSError ''rmtree'') \<and>
     cwd (snd (in_temp_dir posix write_locked home)) = ''/home/u''"
    using exit_restores_then_deletes [where block = write_locked and v = posix_view,
        OF home_getcwd home_mkdtemp created_chdir 4 5 6]
      posix_chdir_contract posix_rmtree_contract
    by (simp add: posix_view_def model_defs write_locked_def)
  have restore_raises:
    "snd (snd (in_temp_dir (logged posix) (unlogged drop_home) (home, []))) =
       [Getcwd, Mkdtemp, Chdir ''/tmp/tmpa'', Chdir ''/home/u'', Rmtree ''/tmp/tmpa''] \<and>
     fst (in_temp_dir posix drop_home home) = Inl (OSError ''chdir'') \<and>
     \<not> present (snd (in_temp_dir posix drop_home home)) ''/tmp/tmpa''"
    using exit_restores_then_deletes [where block = drop_home and v = posix_view,
        OF home_getcwd home_mkdtemp created_chdir 7 8 9]
    by (simp add: present_def model_defs drop_home_def)
  from deletion_raises restore_raises show ?thesis
    by simp
qed

text \<open>
  \<^bold>\<open>C2.\<close> Once the scope is entered, whether the block returns or raises (\<open>rb\<close> is
  either), and whether or not the deletion raises: when the \<^verbatim>\<open>chdir\<close> back returns, the
  working directory after the scope has exited is the directory \<^verbatim>\<open>getcwd\<close> recorded,
  and that is the working directory the invocation started in.
\<close>

theorem working_directory_restored:
  assumes "getcwd_contract h v" and "chdir_contract h v" and "rmtree_contract h v"
    and "os_getcwd h w = (Inr orig, w0)"
    and "tempfile_mkdtemp h w0 = (Inr tmp, w1)"
    and "os_chdir h tmp w1 = (Inr u, w2)"
    and "block tmp w2 = (rb, w3)"
    and "os_chdir h orig w3 = (Inr u', w4)"
  shows "orig = cwd_of v w \<and> cwd_of v (snd (in_temp_dir h block w)) = orig"
proof -
  obtain rd w5 where rm: "shutil_rmtree h tmp w4 = (rd, w5)"
    by (cases "shutil_rmtree h tmp w4")
  have "snd (in_temp_dir h block w) = w5"
    using in_temp_dir_exit [where block = block, OF assms(4-8) rm] by simp
  moreover have "cwd_of v w5 = cwd_of v w4"
    using rmtree_ok(1) [OF assms(3) rm] .
  moreover have "cwd_of v w4 = orig"
    using chdir_ok(2) [OF assms(2,8)] by simp
  moreover have "orig = cwd_of v w"
    using getcwd_ok(3) [OF assms(1,4)] by simp
  ultimately show ?thesis by simp
qed

text \<open>\<^bold>\<open>C2\<close> on the model host: a block that raises.\<close>

theorem working_directory_restored_witness:
  "fst (boom ''/tmp/tmpa'' entered) = Inl (ValueError ''boom'') \<and>
   cwd (snd (boom ''/tmp/tmpa'' entered)) = ''/tmp/tmpa'' \<and>
   cwd home = ''/home/u'' \<and> cwd (snd (in_temp_dir posix boom home)) = ''/home/u''"
proof -
  let ?w3 = "snd (boom ''/tmp/tmpa'' entered)"
  let ?w4 = "snd (os_chdir posix ''/home/u'' ?w3)"
  have 4: "boom ''/tmp/tmpa'' entered = (Inl (ValueError ''boom''), ?w3)"
    by (simp add: boom_def)
  have 5: "os_chdir posix ''/home/u'' ?w3 = (Inr (), ?w4)"
    by (simp add: model_defs boom_def)
  show ?thesis
    using working_directory_restored [where block = boom and v = posix_view,
        OF posix_getcwd_contract posix_chdir_contract posix_rmtree_contract
           home_getcwd home_mkdtemp created_chdir 4 5]
    by (simp add: posix_view_def boom_def entered_def)
qed

text \<open>
  \<^bold>\<open>C3.\<close> Once the scope is entered, whatever the block did and whether or not the restore
  raised: when the \<^verbatim>\<open>rmtree\<close> returns, neither the temporary directory nor anything
  inside it exists after the scope has exited.
\<close>

theorem temporary_directory_removed:
  assumes "rmtree_contract h v"
    and "os_getcwd h w = (Inr orig, w0)"
    and "tempfile_mkdtemp h w0 = (Inr tmp, w1)"
    and "os_chdir h tmp w1 = (Inr u, w2)"
    and "block tmp w2 = (rb, w3)"
    and "os_chdir h orig w3 = (rc, w4)"
    and "shutil_rmtree h tmp w4 = (Inr u', w5)"
  shows "\<not> path_exists v (snd (in_temp_dir h block w)) tmp \<and>
         (\<forall>q. inside tmp q \<longrightarrow> \<not> path_exists v (snd (in_temp_dir h block w)) q)"
proof -
  have "snd (in_temp_dir h block w) = w5"
    using in_temp_dir_exit [where block = block, OF assms(2-7)] by simp
  then show ?thesis
    using rmtree_ok(2,3) [OF assms(1,7)] by simp
qed

text \<open>\<^bold>\<open>C3\<close> on the model host: a block that writes \<^verbatim>\<open>data.txt\<close>.\<close>

theorem temporary_directory_removed_witness:
  "present (snd (write_data ''/tmp/tmpa'' entered)) ''/tmp/tmpa/data.txt'' \<and>
   \<not> present (snd (in_temp_dir posix write_data home)) ''/tmp/tmpa'' \<and>
   \<not> present (snd (in_temp_dir posix write_data home)) ''/tmp/tmpa/data.txt''"
proof -
  let ?w3 = "snd (write_data ''/tmp/tmpa'' entered)"
  let ?w4 = "snd (os_chdir posix ''/home/u'' ?w3)"
  let ?w5 = "snd (shutil_rmtree posix ''/tmp/tmpa'' ?w4)"
  have 4: "write_data ''/tmp/tmpa'' entered = (Inr (), ?w3)"
    by (simp add: write_data_def)
  have 5: "os_chdir posix ''/home/u'' ?w3 = (Inr (), ?w4)"
    by (simp add: model_defs write_data_def)
  have 6: "shutil_rmtree posix ''/tmp/tmpa'' ?w4 = (Inr (), ?w5)"
    by (simp add: model_defs write_data_def)
  have "inside ''/tmp/tmpa'' ''/tmp/tmpa/data.txt''"
    by (simp add: inside_def)
  then show ?thesis
    using temporary_directory_removed [where block = write_data and v = posix_view,
        OF posix_rmtree_contract home_getcwd home_mkdtemp created_chdir 4 5 6]
    by (simp add: posix_view_def present_def write_data_def)
qed

text \<open>
  \<^bold>\<open>C4.\<close> When the three steps of entry return, the block is run on the yielded path in
  the world the \<^verbatim>\<open>chdir\<close> into the temporary directory left, and in that world the
  yielded path exists, nothing lies inside it, and it is the working directory.
\<close>

theorem block_starts_in_fresh_directory:
  assumes "mkdtemp_contract h v" and "chdir_contract h v"
    and "os_getcwd h w = (Inr orig, w0)"
    and "tempfile_mkdtemp h w0 = (Inr tmp, w1)"
    and "os_chdir h tmp w1 = (Inr u, w2)"
  shows "in_temp_dir h block w =
           try_finally (block tmp)
             (try_finally (os_chdir h orig) (shutil_rmtree h tmp)) w2 \<and>
         path_exists v w2 tmp \<and> (\<forall>q. inside tmp q \<longrightarrow> \<not> path_exists v w2 q) \<and>
         cwd_of v w2 = tmp"
proof -
  have "path_exists v w2 = path_exists v w1"
    using chdir_ok(1) [OF assms(2,5)] .
  moreover have "path_exists v w1 tmp" "\<And>q. inside tmp q \<Longrightarrow> \<not> path_exists v w1 q"
    using mkdtemp_ok(3,4) [OF assms(1,4)] by simp_all
  moreover have "cwd_of v w2 = tmp"
    using chdir_ok(2) [OF assms(2,5)] by simp
  ultimately show ?thesis
    using in_temp_dir_entered [OF assms(3-5), of block] by simp
qed

text \<open>\<^bold>\<open>C4\<close> on the model host: a block that reports what it sees.\<close>

theorem block_starts_in_fresh_directory_witness:
  "fst (in_temp_dir posix look_around home) = Inr (''/tmp/tmpa'', ''/tmp/tmpa'', True, False) \<and>
   present entered ''/tmp/tmpa'' \<and> \<not> present entered ''/tmp/tmpa/data.txt'' \<and>
   cwd entered = ''/tmp/tmpa''"
proof -
  have "inside ''/tmp/tmpa'' ''/tmp/tmpa/data.txt''"
    by (simp add: inside_def)
  then show ?thesis
    using block_starts_in_fresh_directory [where block = look_around and v = posix_view,
        OF posix_mkdtemp_contract posix_chdir_contract home_getcwd home_mkdtemp created_chdir]
    by (simp add: posix_view_def try_finally_def look_around_def model_defs)
qed

text \<open>
  \<^bold>\<open>C5\<close>, as stated, fails: a block that raises \<^verbatim>\<open>ValueError\<close> after leaving behind a
  file that cannot be deleted. The deletion is attempted and raises, and the caller
  receives the \<^verbatim>\<open>OSError\<close> of the deletion, not the \<^verbatim>\<open>ValueError\<close> of the block.
\<close>

theorem cleanup_error_replaces_block_error:
  "fst (boom_locked ''/tmp/tmpa'' entered) = Inl (ValueError ''boom'') \<and>
   fst (in_temp_dir posix boom_locked home) = Inl (OSError ''rmtree'')"
  by (simp add: in_temp_dir_def try_finally_def boom_locked_def model_defs)

text \<open>
  \<^bold>\<open>C5\<close>, amended. When the block raises, both steps of the exit path are still
  attempted, in order. The caller receives the exception of the block when neither step
  raises; it receives the deletion's exception when the deletion raises, and otherwise
  the restore's when the restore raises. When neither raises, the working directory is
  restored and the temporary directory is gone as the exception of the block reaches the
  caller.
\<close>

theorem block_error_after_cleanup:
  assumes "os_getcwd h w = (Inr orig, w0)"
    and "tempfile_mkdtemp h w0 = (Inr tmp, w1)"
    and "os_chdir h tmp w1 = (Inr u, w2)"
    and "block tmp w2 = (Inl e, w3)"
    and "os_chdir h orig w3 = (rc, w4)"
    and "shutil_rmtree h tmp w4 = (rd, w5)"
  shows "snd (in_temp_dir (logged h) (unlogged block) (w, [])) =
           (w5, [Getcwd, Mkdtemp, Chdir tmp, Chdir orig, Rmtree tmp]) \<and>
         in_temp_dir h block w =
           (case rd of Inl e2 \<Rightarrow> Inl e2
            | Inr _ \<Rightarrow> (case rc of Inl e1 \<Rightarrow> Inl e1 | Inr _ \<Rightarrow> Inl e), w5) \<and>
         (\<forall>u1 u2. rc = Inr u1 \<and> rd = Inr u2 \<longrightarrow>
            in_temp_dir h block w = (Inl e, w5) \<and>
            (chdir_contract h v \<and> rmtree_contract h v \<longrightarrow>
               cwd_of v w5 = orig \<and> \<not> path_exists v w5 tmp))"
proof -
  note run = in_temp_dir_exit [where block = block, OF assms]
  have "snd (in_temp_dir (logged h) (unlogged block) (w, [])) =
          (w5, [Getcwd, Mkdtemp, Chdir tmp, Chdir orig, Rmtree tmp])"
    using in_temp_dir_log [where block = block and log = "[]", OF assms] by simp
  moreover have "cwd_of v w5 = orig \<and> \<not> path_exists v w5 tmp"
    if "rc = Inr u1" and "rd = Inr u2" and "chdir_contract h v" and "rmtree_contract h v"
    for u1 u2
    using chdir_ok(2) [OF that(3) assms(5) that(1)] rmtree_ok(1,2) [OF that(4) assms(6)] that(2)
    by simp
  ultimately show ?thesis
    using run by auto
qed

text \<open>\<^bold>\<open>C5\<close> on the model host: a block that raises \<^verbatim>\<open>ValueError\<close>.\<close>

theorem block_error_after_cleanup_witness:
  "fst (in_temp_dir posix boom home) = Inl (ValueError ''boom'') \<and>
   cwd (snd (in_temp_dir posix boom home)) = ''/home/u'' \<and>
   \<not> present (snd (in_temp_dir posix boom home)) ''/tmp/tmpa'' \<and>
   snd (snd (in_temp_dir (logged posix) (unlogged boom) (home, []))) =
     [Getcwd, Mkdtemp, Chdir ''/tmp/tmpa'', Chdir ''/home/u'', Rmtree ''/tmp/tmpa'']"
proof -
  let ?w3 = "snd (boom ''/tmp/tmpa'' entered)"
  let ?w4 = "snd (os_chdir posix ''/home/u'' ?w3)"
  let ?w5 = "snd (shutil_rmtree posix ''/tmp/tmpa'' ?w4)"
  have 4: "boom ''/tmp/tmpa'' entered = (Inl (ValueError ''boom''), ?w3)"
    by (simp add: boom_def)
  have 5: "os_chdir posix ''/home/u'' ?w3 = (Inr (), ?w4)"
    by (simp add: model_defs boom_def)
  have 6: "shutil_rmtree posix ''/tmp/tmpa'' ?w4 = (Inr (), ?w5)"
    by (simp add: model_defs boom_def)
  show ?thesis
    using block_error_after_cleanup [where block = boom and v = posix_view,
        OF home_getcwd home_mkdtemp created_chdir 4 5 6]
      posix_chdir_contract posix_rmtree_contract
    by (simp add: posix_view_def)
qed

text \<open>
  \<^bold>\<open>C9.\<close> When \<^verbatim>\<open>getcwd\<close> and \<^verbatim>\<open>mkdtemp\<close> return and the \<^verbatim>\<open>chdir\<close> into the new
  directory raises, the invocation raises that exception; the block is not run and the
  calls made are those three, so \<^verbatim>\<open>rmtree\<close> is never called. The working directory is
  the one the invocation started in, and the directory \<^verbatim>\<open>mkdtemp\<close> created still exists.
\<close>

theorem entry_chdir_failure_leaks_directory:
  assumes "getcwd_contract h v" and "mkdtemp_contract h v" and "chdir_contract h v"
    and "os_getcwd h w = (Inr orig, w0)"
    and "tempfile_mkdtemp h w0 = (Inr tmp, w1)"
    and "os_chdir h tmp w1 = (Inl e, w2)"
  shows "in_temp_dir h block w = (Inl e, w2) \<and>
         in_temp_dir (logged h) (unlogged block) (w, []) =
           (Inl e, w2, [Getcwd, Mkdtemp, Chdir tmp]) \<and>
         cwd_of v w2 = cwd_of v w \<and> path_exists v w2 tmp"
proof -
  have "in_temp_dir h block w = (Inl e, w2)"
    using assms(4-6) by (simp add: in_temp_dir_def)
  moreover have "in_temp_dir (logged h) (unlogged block) (w, []) =
      (Inl e, w2, [Getcwd, Mkdtemp, Chdir tmp])"
    using assms(4-6) by (simp add: in_temp_dir_def logged_def record_call_def)
  moreover have "cwd_of v w2 = cwd_of v w"
    using chdir_ok(3) [OF assms(3,6)] mkdtemp_ok(1) [OF assms(2,5)] getcwd_ok(1) [OF assms(1,4)]
    by simp
  moreover have "path_exists v w2 tmp"
    using chdir_ok(1) [OF assms(3,6)] mkdtemp_ok(3) [OF assms(2,5)] by simp
  ultimately show ?thesis by simp
qed

text \<open>\<^bold>\<open>C9\<close> on the model host: the new directory cannot be entered.\<close>

theorem entry_chdir_failure_leaks_directory_witness:
  "fst (in_temp_dir posix write_data shut_out) = Inl (OSError ''chdir'') \<and>
   cwd (snd (in_temp_dir posix write_data shut_out)) = ''/home/u'' \<and>
   present (snd (in_temp_dir posix write_data shut_out)) ''/tmp/tmpa'' \<and>
   snd (snd (in_temp_dir (logged posix) (unlogged write_data) (shut_out, []))) =
     [Getcwd, Mkdtemp, Chdir ''/tmp/tmpa'']"
proof -
  let ?w1 = "snd (tempfile_mkdtemp posix shut_out)"
  let ?w2 = "snd (os_chdir posix ''/tmp/tmpa'' ?w1)"
  have 1: "os_getcwd posix shut_out = (Inr ''/home/u'', shut_out)"
    by (simp add: model_defs)
  have 2: "tempfile_mkdtemp posix shut_out = (Inr ''/tmp/tmpa'', ?w1)"
    by (simp add: model_defs)
  have 3: "os_chdir posix ''/tmp/tmpa'' ?w1 = (Inl (OSError ''chdir''), ?w2)"
    by (simp add: model_defs)
  show ?thesis
    using entry_chdir_failure_leaks_directory [where block = write_data and v = posix_view,
        OF posix_getcwd_contract posix_mkdtemp_contract posix_chdir_contract 1 2 3]
    by (simp add: posix_view_def model_defs)
qed

text \<open>
  \<^bold>\<open>C10.\<close> Whatever the block does, the \<^verbatim>\<open>chdir\<close> of the exit path is called with the
  working directory the invocation started in, which \<^verbatim>\<open>getcwd\<close> read before the
  temporary directory was created. When that call returns, the working directory after
  the scope has exited is the one the invocation started in, wherever the block left the
  process (nothing is assumed of the working directory in \<open>w3\<close>, the world the block left).
\<close>

theorem restore_target_recorded_at_entry:
  assumes "getcwd_contract h v" and "chdir_contract h v" and "rmtree_contract h v"
    and "os_getcwd h w = (Inr orig, w0)"
    and "tempfile_mkdtemp h w0 = (Inr tmp, w1)"
    and "os_chdir h tmp w1 = (Inr u, w2)"
    and "block tmp w2 = (rb, w3)"
    and "os_chdir h orig w3 = (rc, w4)"
    and "shutil_rmtree h tmp w4 = (rd, w5)"
  shows "snd (snd (in_temp_dir (logged h) (unlogged block) (w, []))) =
           [Getcwd, Mkdtemp, Chdir tmp, Chdir (cwd_of v w), Rmtree tmp] \<and>
         (\<forall>u'. rc = Inr u' \<longrightarrow> cwd_of v (snd (in_temp_dir h block w)) = cwd_of v w)"
proof -
  have orig: "orig = cwd_of v w"
    using getcwd_ok(3) [OF assms(1,4)] by simp
  have "snd (in_temp_dir h block w) = w5"
    using in_temp_dir_exit [where block = block, OF assms(4-9)] by simp
  moreover have "cwd_of v w5 = orig" if "rc = Inr u'" for u'
    using chdir_ok(2) [OF assms(2,8) that] rmtree_ok(1) [OF assms(3,9)] by simp
  ultimately show ?thesis
    using in_temp_dir_log [where block = block and log = "[]", OF assms(4-9)] orig by simp
qed

text \<open>\<^bold>\<open>C10\<close> on the model host: a block that changes into \<^verbatim>\<open>/srv\<close>.\<close>

theorem restore_target_recorded_at_entry_witness:
  "cwd (snd (wander ''/tmp/tmpa'' entered)) = ''/srv'' \<and>
   cwd (snd (in_temp_dir posix wander home)) = ''/home/u'' \<and>
   snd (snd (in_temp_dir (logged posix) (unlogged wander) (home, []))) =
     [Getcwd, Mkdtemp, Chdir ''/tmp/tmpa'', Chdir ''/home/u'', Rmtree ''/tmp/tmpa'']"
proof -
  let ?w3 = "snd (wander ''/tmp/tmpa'' entered)"
  let ?w4 = "snd (os_chdir posix ''/home/u'' ?w3)"
  let ?w5 = "snd (shutil_rmtree posix ''/tmp/tmpa'' ?w4)"
  have 4: "wander ''/tmp/tmpa'' entered = (Inr (), ?w3)"
    by (simp add: wander_def model_defs)
  have 5: "os_chdir posix ''/home/u'' ?w3 = (Inr (), ?w4)"
    by (simp add: wander_def model_defs)
  have 6: "shutil_rmtree posix ''/tmp/tmpa'' ?w4 = (Inr (), ?w5)"
    by (simp add: wander_def model_defs)
  show ?thesis
    using restore_target_recorded_at_entry [where block = wander and v = posix_view,
        OF posix_getcwd_contract posix_chdir_contract posix_rmtree_contract
           home_getcwd home_mkdtemp created_chdir 4 5 6]
    by (simp add: posix_view_def wander_def model_defs)
qed

section \<open>The decorator\<close>

text \<open>
  \<^bold>\<open>C6\<close>, as stated, fails: a function that leaves behind, in the working directory it
  runs in, a file that cannot be deleted. Called with \<^verbatim>\<open>(3)\<close> it returns 5, and the
  decorated function raises the \<^verbatim>\<open>OSError\<close> of the deletion instead of returning 5;
  called with no argument it raises \<^verbatim>\<open>TypeError\<close>, and the decorated function raises
  the \<^verbatim>\<open>OSError\<close> of the deletion instead of that \<^verbatim>\<open>TypeError\<close>.
\<close>

theorem cleanup_error_replaces_func_outcome:
  "fst (fn_call f_locked ([3], []) entered) = Inr 5 \<and>
   fst (fn_call (within_temp_dir posix f_locked) ([3], []) home) = Inl (OSError ''rmtree'') \<and>
   fst (fn_call f_locked ([], []) entered) = Inl (TypeError ''f'') \<and>
   fst (fn_call (within_temp_dir posix f_locked) ([], []) home) = Inl (OSError ''rmtree'')"
  by (simp add: within_temp_dir_def functools_wraps_def in_temp_dir_def try_finally_def
      f_locked_def f_locked_call_def f_call_def model_defs)

text \<open>
  \<^bold>\<open>C6\<close>, amended. A call of the decorated function is the scope of \<open>in_temp_dir\<close>
  around a call of the original function with the very same arguments; the yielded path
  is not passed on. Once the scope is entered, the original function runs in the world
  the \<^verbatim>\<open>chdir\<close> into the temporary directory left, where the temporary directory is the
  working directory, and the exit path runs on the world the function left. The caller
  receives the outcome of the original function, its value or its exception, when both
  steps of the exit path return; it receives the deletion's exception when the deletion
  raises, and otherwise the restore's when the restore raises.
\<close>

theorem within_temp_dir_calls_func_in_scope:
  assumes "os_getcwd h w = (Inr orig, w0)"
    and "tempfile_mkdtemp h w0 = (Inr tmp, w1)"
    and "os_chdir h tmp w1 = (Inr u, w2)"
    and "fn_call func args w2 = (rf, w3)"
    and "os_chdir h orig w3 = (rc, w4)"
    and "shutil_rmtree h tmp w4 = (rd, w5)"
  shows "fn_call (within_temp_dir h func) args = in_temp_dir h (\<lambda>_. fn_call func args) \<and>
         fn_call (within_temp_dir h func) args w =
           (case rd of Inl e \<Rightarrow> Inl e
            | Inr _ \<Rightarrow> (case rc of Inl e \<Rightarrow> Inl e | Inr _ \<Rightarrow> rf), w5) \<and>
         (\<forall>u1 u2. rc = Inr u1 \<and> rd = Inr u2 \<longrightarrow>
            fn_call (within_temp_dir h func) args w = (rf, w5)) \<and>
         (chdir_contract h v \<longrightarrow> cwd_of v w2 = tmp)"
proof -
  have call: "fn_call (within_temp_dir h func) args = in_temp_dir h (\<lambda>_. fn_call func args)"
    by (simp add: within_temp_dir_def functools_wraps_def)
  have run: "in_temp_dir h (\<lambda>_. fn_call func args) w =
      (case rd of Inl e \<Rightarrow> Inl e | Inr _ \<Rightarrow> (case rc of Inl e \<Rightarrow> Inl e | Inr _ \<Rightarrow> rf), w5)"
    using in_temp_dir_exit [where block = "\<lambda>_. fn_call func args", OF assms] .
  have "cwd_of v w2 = tmp" if "chdir_contract h v"
    using chdir_ok(2) [OF that assms(3)] by simp
  then show ?thesis
    using call run by auto
qed

text \<open>\<^bold>\<open>C6\<close> on the model host: \<^verbatim>\<open>f(x, y=2)\<close> wrapped and called with \<^verbatim>\<open>(3)\<close>.\<close>

theorem within_temp_dir_calls_func_in_scope_witness:
  "fn_call f ([3], []) entered = (Inr 5, entered) \<and> cwd entered = ''/tmp/tmpa'' \<and>
   fst (fn_call (within_temp_dir posix f) ([3], []) home) = Inr 5 \<and>
   cwd (snd (fn_call (within_temp_dir posix f) ([3], []) home)) = ''/home/u''"
proof -
  let ?w4 = "snd (os_chdir posix ''/home/u'' entered)"
  let ?w5 = "snd (shutil_rmtree posix ''/tmp/tmpa'' ?w4)"
  have 4: "fn_call f ([3], []) entered = (Inr 5, entered)"
    by (simp add: f_def f_call_def)
  have 5: "os_chdir posix ''/home/u'' entered = (Inr (), ?w4)"
    by (simp add: model_defs)
  have 6: "shutil_rmtree posix ''/tmp/tmpa'' ?w4 = (Inr (), ?w5)"
    by (simp add: model_defs)
  have "fn_call (within_temp_dir posix f) ([3], []) home = (Inr 5, ?w5)"
    using within_temp_dir_calls_func_in_scope [where func = f and v = posix_view,
        OF home_getcwd home_mkdtemp created_chdir 4 5 6, THEN conjunct2, THEN conjunct1]
    by simp
  then show ?thesis
    using 4 by (simp add: model_defs)
qed

text \<open>
  \<^bold>\<open>C8.\<close> The decorated function carries the name and the docstring of the original
  function (and its module), not those of the inner function \<^verbatim>\<open>decorated\<close>.
\<close>

theorem within_temp_dir_keeps_metadata:
  "fn_name (within_temp_dir h func) = fn_name func \<and>
   fn_doc (within_temp_dir h func) = fn_doc func \<and>
   fn_module (within_temp_dir h func) = fn_module func"
  by (simp add: within_temp_dir_def functools_wraps_def)

text \<open>\<^bold>\<open>C8\<close> on the model host: the wrapped \<^verbatim>\<open>f\<close>.\<close>

theorem within_temp_dir_keeps_metadata_witness:
  "fn_name (within_temp_dir posix f) = ''f'' \<and>
   fn_doc (within_temp_dir posix f) = Some ''add''"
  using within_temp_dir_keeps_metadata [of posix f] by (simp add: f_def)

section \<open>Invocations in a row\<close>

text \<open>
  \<^bold>\<open>C7\<close>, as stated, fails. The code takes the path from \<^verbatim>\<open>tempfile.mkdtemp\<close>, which
  creates a directory that does not exist yet, under a name drawn at random: a name
  freed by the deletion of one invocation can be drawn again by the next. Two
  invocations in a row, the generator producing the same name twice: both run in
  \<^verbatim>\<open>/tmp/tmpa\<close>.
\<close>

theorem repeated_name_counterexample:
  "map_sum id (map fst) (fst (in_temp_dir_seq posix [write_data, write_data] repeating)) =
     Inr [''/tmp/tmpa'', ''/tmp/tmpa''] \<and>
   \<not> distinct [''/tmp/tmpa'', ''/tmp/tmpa'']"
  by (simp add: in_temp_dir_def try_finally_def yielding_def write_data_def model_defs)

text \<open>
  \<^bold>\<open>C7\<close>, amended. N sequential invocations that all return yield N paths. Each path did
  not exist when its invocation started; when its scope has exited, neither the path nor
  anything inside it exists, and the working directory is the one the sequence started
  in, as it is after the whole sequence. (\<open>zip\<close> pairs every invocation with the world
  it started in: the starting world for the first, the world the previous invocation left
  for the others.)
\<close>

theorem sequential_invocations:
  assumes "getcwd_contract h v" and "mkdtemp_contract h v"
    and "chdir_contract h v" and "rmtree_contract h v"
    and "in_temp_dir_seq h blocks w = (Inr trace, w')"
  shows "length trace = length blocks \<and>
         (\<forall>(before, d, after) \<in> set (zip (w # map snd trace) trace).
            \<not> path_exists v before d \<and> \<not> path_exists v after d \<and>
            (\<forall>q. inside d q \<longrightarrow> \<not> path_exists v after q) \<and>
            cwd_of v after = cwd_of v w) \<and>
         cwd_of v w' = cwd_of v w"
  using assms(5)
proof (induction blocks arbitrary: w trace w')
  case Nil
  then show ?case by simp
next
  case (Cons block blocks)
  from Cons.prems obtain d w1 rest where
    first: "in_temp_dir h (yielding block) w = (Inr d, w1)" and
    others: "in_temp_dir_seq h blocks w1 = (Inr rest, w')" and
    trace: "trace = (d, w1) # rest"
    by (auto split: prod.splits sum.splits)
  note one = one_invocation [OF assms(1-4) first]
  from Cons.IH [OF others] one(4) have
    "length rest = length blocks"
    "\<forall>(before, d, after) \<in> set (zip (w1 # map snd rest) rest).
       \<not> path_exists v before d \<and> \<not> path_exists v after d \<and>
       (\<forall>q. inside d q \<longrightarrow> \<not> path_exists v after q) \<and> cwd_of v after = cwd_of v w"
    "cwd_of v w' = cwd_of v w"
    by simp_all
  then show ?case
    using one by (simp add: trace)
qed

text \<open>\<^bold>\<open>C7\<close> on the model host: two invocations, two names.\<close>

theorem sequential_invocations_witness:
  "map_sum id (map fst) (fst (in_temp_dir_seq posix [write_data, write_data] home)) =
     Inr [''/tmp/tmpa'', ''/tmp/tmpb''] \<and>
   \<not> present (snd (in_temp_dir_seq posix [write_data, write_data] home)) ''/tmp/tmpa'' \<and>
   \<not> present (snd (in_temp_dir_seq posix [write_data, write_data] home)) ''/tmp/tmpb'' \<and>
   cwd (snd (in_temp_dir_seq posix [write_data, write_data] home)) = ''/home/u''"
proof -
  have run: "in_temp_dir_seq posix [write_data, write_data] home =
      (Inr [(''/tmp/tmpa'', home \<lparr> names := [''b''] \<rparr>), (''/tmp/tmpb'', home \<lparr> names := [] \<rparr>)],
       home \<lparr> names := [] \<rparr>)"
    by (simp add: in_temp_dir_def try_finally_def yielding_def write_data_def model_defs)
  show ?thesis
    unfolding run
    using sequential_invocations [where v = posix_view,
        OF posix_getcwd_contract posix_mkdtemp_contract posix_chdir_contract
           posix_rmtree_contract run]
    by (simp add: posix_view_def home_def present_def)
qed

end
